theory Spec2Isabelle
  imports Complex_Main
begin

section \<open>The cursor: class Context\<close>

text \<open>
  A \<open>Context\<close> object holds the input text \<open>s\<close> and the scan position \<open>pos\<close>, a Python
  integer. The constructor strips the text it is given, every time it is called. Python
  strings are sequences of code points; the model takes the characters of the 8-bit type
  \<open>char\<close>, of which \<open>str.isspace\<close> accepts the twelve listed in \<open>isspace\<close>.
\<close>

record Context =
  s :: string
  pos :: int

definition isspace :: "char \<Rightarrow> bool" where
  "isspace c = (c \<in> set
     [CHR 0x09, CHR 0x0A, CHR 0x0B, CHR 0x0C, CHR 0x0D, CHR 0x1C, CHR 0x1D, CHR 0x1E,
      CHR 0x1F, CHR 0x20, CHR 0x85, CHR 0xA0])"

definition strip :: "string \<Rightarrow> string" where
  "strip str = rev (dropWhile isspace (rev (dropWhile isspace str)))"

definition Context_init :: "string \<Rightarrow> int \<Rightarrow> Context" where
  "Context_init str p = \<lparr>s = strip str, pos = p\<rparr>"

text \<open>
  The exceptions that the parsers can raise. \<open>ParsingError\<close> is the class of the repository,
  raised with a message and the cursor as its two arguments; the others are built-in
  exceptions of Python raised by indexing, by \<open>eval\<close> and by the arithmetic operators.
\<close>

datatype error =
    ParsingError string Context
  | SyntaxError
  | ZeroDivisionError
  | OverflowError
  | TypeError
  | IndexError

fun is_ParsingError :: "error \<Rightarrow> bool" where
  "is_ParsingError (ParsingError msg c) = True"
| "is_ParsingError SyntaxError = False"
| "is_ParsingError ZeroDivisionError = False"
| "is_ParsingError OverflowError = False"
| "is_ParsingError TypeError = False"
| "is_ParsingError IndexError = False"

text \<open>
  \<open>at\<close>: \<open>None\<close> when \<open>pos >= len(s)\<close>, else \<open>s[pos]\<close>. Python indexing counts a negative
  index from the end and raises \<open>IndexError\<close> below \<open>-len(s)\<close>.
\<close>

definition Context_at :: "Context \<Rightarrow> error + char option" where
  "Context_at self =
     (if pos self \<ge> int (length (s self)) then Inr None
      else if 0 \<le> pos self then Inr (Some (s self ! nat (pos self)))
      else if - int (length (s self)) \<le> pos self
        then Inr (Some (s self ! nat (int (length (s self)) + pos self)))
      else Inl IndexError)"

definition Context_pick :: "Context \<Rightarrow> error + char" where
  "Context_pick self =
     (case Context_at self of
        Inl e \<Rightarrow> Inl e
      | Inr None \<Rightarrow> Inl (ParsingError ''Error'' self)
      | Inr (Some i) \<Rightarrow> Inr i)"

definition Context_next :: "Context \<Rightarrow> Context" where
  "Context_next self = Context_init (s self) (pos self + 1)"

definition Context_copy :: "Context \<Rightarrow> Context" where
  "Context_copy self = Context_init (s self) (pos self)"

text \<open>\<open>rest_str\<close> is the slice \<open>s[pos:]\<close>; a negative start counts from the end.\<close>

definition Context_rest_str :: "Context \<Rightarrow> string" where
  "Context_rest_str self =
     (if 0 \<le> pos self then drop (nat (pos self)) (s self)
      else drop (nat (int (length (s self)) + pos self)) (s self))"

section \<open>Parsers and their combinators\<close>

text \<open>
  A parser maps a cursor to a value and a cursor, or raises. The outcome of a call is
  \<open>Some (Inr (value, cursor))\<close> when it returns, \<open>Some (Inl e)\<close> when it raises \<open>e\<close>, and
  \<open>None\<close> when the call does not return at all (unbounded recursion). \<open>FuncParser\<close> wraps
  a function as a parser and is the identity here.
\<close>

type_synonym 'a outcome = "error + 'a \<times> Context"
type_synonym 'a Parser = "Context \<Rightarrow> 'a outcome option"

definition throw :: "error \<Rightarrow> 'a Parser" where
  "throw e context = Some (Inl e)"

definition Parser_ret :: "'a \<Rightarrow> 'a Parser" where
  "Parser_ret data context = Some (Inr (data, context))"

definition Parser_bind :: "'a Parser \<Rightarrow> ('a \<Rightarrow> 'b Parser) \<Rightarrow> 'b Parser" where
  "Parser_bind self f context =
     (case self context of
        None \<Rightarrow> None
      | Some (Inl e) \<Rightarrow> Some (Inl e)
      | Some (Inr (a, context')) \<Rightarrow> f a context')"

text \<open>\<open>__or__\<close>: the \<open>except\<close> clause catches \<open>ParsingError\<close> and nothing else.\<close>

definition Parser_or :: "'a Parser \<Rightarrow> 'a Parser \<Rightarrow> 'a Parser" where
  "Parser_or self other context =
     (case self context of
        None \<Rightarrow> None
      | Some (Inl e) \<Rightarrow> (if is_ParsingError e then other context else Some (Inl e))
      | Some (Inr r) \<Rightarrow> Some (Inr r))"

definition Parser_pick :: "char Parser" where
  "Parser_pick context =
     (case Context_pick context of
        Inl e \<Rightarrow> Some (Inl e)
      | Inr ch \<Rightarrow> Some (Inr (ch, context)))"

definition Parser_next :: "Context Parser" where
  "Parser_next context = Some (Inr (context, Context_next context))"

definition Sat :: "(char \<Rightarrow> bool) \<Rightarrow> char Parser" where
  "Sat p context =
     (case Context_pick context of
        Inl e \<Rightarrow> Some (Inl e)
      | Inr ch \<Rightarrow>
          if p ch then Some (Inr (ch, Context_next context))
          else Some (Inl (ParsingError (''Unexpected Char: '' @ [ch]) context)))"

definition Char_parser :: "char \<Rightarrow> char Parser" where
  "Char_parser c context = Sat (\<lambda>x. x = c) context"

text \<open>\<open>String.parse\<close>: the \<open>for\<close> loop over the characters of the literal.\<close>

primrec String_loop :: "string \<Rightarrow> Context \<Rightarrow> (error + Context) option" where
  "String_loop [] context = Some (Inr context)"
| "String_loop (ch # rest) context =
     (case Char_parser ch context of
        None \<Rightarrow> None
      | Some (Inl e) \<Rightarrow> Some (Inl e)
      | Some (Inr (x, context')) \<Rightarrow> String_loop rest context')"

definition String_parser :: "string \<Rightarrow> string Parser" where
  "String_parser str context =
     (case String_loop str context of
        None \<Rightarrow> None
      | Some (Inl e) \<Rightarrow> Some (Inl e)
      | Some (Inr context') \<Rightarrow> Some (Inr (str, context')))"

subsection \<open>Repetition\<close>

text \<open>
  A \<open>do\<close> block runs its generator through \<open>reduce\<close>, which binds each yielded parser to
  the rest of the block: it is the nested \<open>bind\<close> of its yields, ending in the returned
  parser. \<open>Many\<close> and \<open>many1\<close> call each other; \<open>Many\<close> is defined with the body of
  \<open>many1\<close> in place, and \<open>many1\<close> after it.
\<close>

lemma Parser_bind_mono [partial_function_mono]:
  fixes A :: "('x \<Rightarrow> 'y option) \<Rightarrow> 'a Parser"
  assumes "\<And>c. mono_option (\<lambda>f. A f c)" and "\<And>y c. mono_option (\<lambda>f. C f y c)"
  shows "mono_option (\<lambda>f. Parser_bind (A f) (\<lambda>y. C f y) ctx)"
proof (rule monotoneI)
  fix f g :: "'x \<Rightarrow> 'y option"
  assume fg: "option.le_fun f g"
  have a: "A f ctx = None \<or> A f ctx = A g ctx"
    using assms(1) [of ctx] fg by (auto simp: monotone_def flat_ord_def)
  have c: "C f y c = None \<or> C f y c = C g y c" for y c
    using assms(2) [of y c] fg by (auto simp: monotone_def flat_ord_def)
  show "option_ord (Parser_bind (A f) (\<lambda>y. C f y) ctx) (Parser_bind (A g) (\<lambda>y. C g y) ctx)"
  proof (cases "A f ctx")
    case None
    then show ?thesis by (simp add: Parser_bind_def flat_ord_def)
  next
    case (Some r)
    with a have "A g ctx = Some r" by simp
    with Some show ?thesis
      using c by (cases r) (auto simp: Parser_bind_def flat_ord_def)
  qed
qed

lemma Parser_or_mono [partial_function_mono]:
  fixes A :: "('x \<Rightarrow> 'y option) \<Rightarrow> 'a Parser"
  assumes "\<And>c. mono_option (\<lambda>f. A f c)" and "\<And>c. mono_option (\<lambda>f. B f c)"
  shows "mono_option (\<lambda>f. Parser_or (A f) (B f) ctx)"
proof (rule monotoneI)
  fix f g :: "'x \<Rightarrow> 'y option"
  assume fg: "option.le_fun f g"
  have a: "A f ctx = None \<or> A f ctx = A g ctx"
    using assms(1) [of ctx] fg by (auto simp: monotone_def flat_ord_def)
  have b: "B f ctx = None \<or> B f ctx = B g ctx"
    using assms(2) [of ctx] fg by (auto simp: monotone_def flat_ord_def)
  show "option_ord (Parser_or (A f) (B f) ctx) (Parser_or (A g) (B g) ctx)"
  proof (cases "A f ctx")
    case None
    then show ?thesis by (simp add: Parser_or_def flat_ord_def)
  next
    case (Some r)
    with a have "A g ctx = Some r" by simp
    with Some show ?thesis
      using b by (cases r) (auto simp: Parser_or_def flat_ord_def)
  qed
qed

partial_function (option) Many :: "'a Parser \<Rightarrow> Context \<Rightarrow> 'a list outcome option" where
  "Many p context =
     Parser_or
       (Parser_bind p (\<lambda>x. Parser_bind (Many p) (\<lambda>xs. Parser_ret ([x] @ xs))))
       (Parser_ret [])
       context"

definition many1 :: "'a Parser \<Rightarrow> 'a list Parser" where
  "many1 p = Parser_bind p (\<lambda>x. Parser_bind (Many p) (\<lambda>xs. Parser_ret ([x] @ xs)))"

subsection \<open>The lexical layer\<close>

definition space :: "char list Parser" where
  "space context = Many (Sat (\<lambda>x. x \<in> set [CHR 0x20, CHR 0x09, CHR 0x0A, CHR 0x0D])) context"

definition token :: "'a Parser \<Rightarrow> 'a Parser" where
  "token p = Parser_bind p (\<lambda>a. Parser_bind space (\<lambda>u. Parser_ret a))"

definition Symb :: "string \<Rightarrow> string Parser" where
  "Symb str context = token (String_parser str) context"

section \<open>Python's numbers, as the grammar uses them\<close>

text \<open>
  The grammar computes with what \<open>eval\<close> returns for a token of digits and dots, and with
  the operators \<open>+\<close>, \<open>-\<close>, \<open>*\<close> and \<open>/\<close> on those values: integers of unbounded size,
  floats (IEEE 754 binary64, rounded to nearest, ties to even) and the \<open>Ellipsis\<close> object,
  which is what \<open>eval("...")\<close> returns. A finite float is kept as the rational number
  it stands for, with the negative zero apart.
\<close>

datatype pyfloat = Finite rat | NegZero | PosInf | NegInf | NaN

datatype pyval = PyInt int | PyFloat pyfloat | Ellipsis

fun bit_length :: "nat \<Rightarrow> nat" where
  "bit_length n = (if n = 0 then 0 else Suc (bit_length (n div 2)))"

declare bit_length.simps [simp del]

definition pow2 :: "int \<Rightarrow> rat" where
  "pow2 k = (if 0 \<le> k then 2 ^ nat k else 1 / 2 ^ nat (- k))"

text \<open>For \<open>r > 0\<close>, the integer \<open>k\<close> with \<open>2^k \<le> r < 2^(k+1)\<close>.\<close>

definition floor_log2 :: "rat \<Rightarrow> int" where
  "floor_log2 r =
     (case quotient_of r of (n, d) \<Rightarrow>
        (let k = int (bit_length (nat n)) - int (bit_length (nat d))
         in if pow2 k \<le> r then k else k - 1))"

definition round_half_even :: "rat \<Rightarrow> int" where
  "round_half_even x =
     (let f = \<lfloor>x\<rfloor>; d = x - of_int f
      in if d < 1 / 2 then f else if 1 / 2 < d then f + 1 else if even f then f else f + 1)"

text \<open>
  Rounding a rational to binary64: 53 significant bits, the exponent of the last bit no
  smaller than \<open>-1074\<close> (subnormal numbers), and an infinity from \<open>2^1024\<close> on.
\<close>

definition round_binary64 :: "rat \<Rightarrow> pyfloat" where
  "round_binary64 r =
     (if r = 0 then Finite 0
      else let a = \<bar>r\<bar>;
               e = max (floor_log2 a - 52) (- 1074);
               m = round_half_even (a / pow2 e);
               v = of_int m * pow2 e
           in if pow2 1024 \<le> v then (if 0 < r then PosInf else NegInf)
              else if m = 0 then (if 0 < r then Finite 0 else NegZero)
              else Finite (if 0 < r then v else - v))"

fun sign_bit :: "pyfloat \<Rightarrow> bool" where
  "sign_bit (Finite r) = (r < 0)"
| "sign_bit NegZero = True"
| "sign_bit PosInf = False"
| "sign_bit NegInf = True"
| "sign_bit NaN = False"

fun float_value :: "pyfloat \<Rightarrow> rat" where
  "float_value (Finite r) = r"
| "float_value NegZero = 0"
| "float_value PosInf = 0"
| "float_value NegInf = 0"
| "float_value NaN = 0"

definition is_inf :: "pyfloat \<Rightarrow> bool" where
  "is_inf x = (x = PosInf \<or> x = NegInf)"

definition is_zero :: "pyfloat \<Rightarrow> bool" where
  "is_zero x = (x = Finite 0 \<or> x = NegZero)"

definition signed_zero :: "bool \<Rightarrow> pyfloat" where
  "signed_zero neg = (if neg then NegZero else Finite 0)"

definition signed_inf :: "bool \<Rightarrow> pyfloat" where
  "signed_inf neg = (if neg then NegInf else PosInf)"

definition float_add :: "pyfloat \<Rightarrow> pyfloat \<Rightarrow> pyfloat" where
  "float_add x y =
     (if x = NaN \<or> y = NaN then NaN
      else if is_inf x then (if is_inf y \<and> x \<noteq> y then NaN else x)
      else if is_inf y then y
      else let r = float_value x + float_value y
           in if r = 0 then (if x = NegZero \<and> y = NegZero then NegZero else Finite 0)
              else round_binary64 r)"

fun float_neg :: "pyfloat \<Rightarrow> pyfloat" where
  "float_neg (Finite r) = (if r = 0 then NegZero else Finite (- r))"
| "float_neg NegZero = Finite 0"
| "float_neg PosInf = NegInf"
| "float_neg NegInf = PosInf"
| "float_neg NaN = NaN"

definition float_sub :: "pyfloat \<Rightarrow> pyfloat \<Rightarrow> pyfloat" where
  "float_sub x y = float_add x (float_neg y)"

definition float_mul :: "pyfloat \<Rightarrow> pyfloat \<Rightarrow> pyfloat" where
  "float_mul x y =
     (if x = NaN \<or> y = NaN then NaN
      else if (is_inf x \<and> is_zero y) \<or> (is_zero x \<and> is_inf y) then NaN
      else if is_inf x \<or> is_inf y then signed_inf (sign_bit x \<noteq> sign_bit y)
      else if is_zero x \<or> is_zero y then signed_zero (sign_bit x \<noteq> sign_bit y)
      else round_binary64 (float_value x * float_value y))"

text \<open>Float division raises \<open>ZeroDivisionError\<close> on a zero divisor of either sign.\<close>

definition float_truediv :: "pyfloat \<Rightarrow> pyfloat \<Rightarrow> error + pyfloat" where
  "float_truediv x y =
     (if is_zero y then Inl ZeroDivisionError
      else if x = NaN \<or> y = NaN then Inr NaN
      else if is_inf x then (if is_inf y then Inr NaN else Inr (signed_inf (sign_bit x \<noteq> sign_bit y)))
      else if is_inf y then Inr (signed_zero (sign_bit x \<noteq> sign_bit y))
      else if is_zero x then Inr (signed_zero (sign_bit x \<noteq> sign_bit y))
      else Inr (round_binary64 (float_value x / float_value y)))"

text \<open>
  An integer meeting a float is converted to a float first, which raises
  \<open>OverflowError\<close> when the integer is too large. The true division of two integers is the
  correctly rounded quotient, and raises when the divisor is zero or the quotient too
  large.
\<close>

definition int_to_float :: "int \<Rightarrow> error + pyfloat" where
  "int_to_float i =
     (case round_binary64 (of_int i) of
        PosInf \<Rightarrow> Inl OverflowError
      | NegInf \<Rightarrow> Inl OverflowError
      | Finite r \<Rightarrow> Inr (Finite r)
      | NegZero \<Rightarrow> Inr NegZero
      | NaN \<Rightarrow> Inr NaN)"

definition int_truediv :: "int \<Rightarrow> int \<Rightarrow> error + pyval" where
  "int_truediv a b =
     (if b = 0 then Inl ZeroDivisionError
      else if a = 0 then Inr (PyFloat (signed_zero (b < 0)))
      else (case round_binary64 (of_int a / of_int b) of
              PosInf \<Rightarrow> Inl OverflowError
            | NegInf \<Rightarrow> Inl OverflowError
            | Finite r \<Rightarrow> Inr (PyFloat (Finite r))
            | NegZero \<Rightarrow> Inr (PyFloat NegZero)
            | NaN \<Rightarrow> Inr (PyFloat NaN)))"

fun arith ::
  "(int \<Rightarrow> int \<Rightarrow> error + pyval) \<Rightarrow> (pyfloat \<Rightarrow> pyfloat \<Rightarrow> error + pyfloat) \<Rightarrow>
   pyval \<Rightarrow> pyval \<Rightarrow> error + pyval" where
  "arith fi ff (PyInt a) (PyInt b) = fi a b"
| "arith fi ff (PyInt a) (PyFloat y) =
     (case int_to_float a of
        Inl e \<Rightarrow> Inl e
      | Inr x \<Rightarrow> (case ff x y of Inl e \<Rightarrow> Inl e | Inr z \<Rightarrow> Inr (PyFloat z)))"
| "arith fi ff (PyFloat x) (PyInt b) =
     (case int_to_float b of
        Inl e \<Rightarrow> Inl e
      | Inr y \<Rightarrow> (case ff x y of Inl e \<Rightarrow> Inl e | Inr z \<Rightarrow> Inr (PyFloat z)))"
| "arith fi ff (PyFloat x) (PyFloat y) =
     (case ff x y of Inl e \<Rightarrow> Inl e | Inr z \<Rightarrow> Inr (PyFloat z))"
| "arith fi ff Ellipsis b = Inl TypeError"
| "arith fi ff (PyInt a) Ellipsis = Inl TypeError"
| "arith fi ff (PyFloat x) Ellipsis = Inl TypeError"

definition py_add :: "pyval \<Rightarrow> pyval \<Rightarrow> error + pyval" where
  "py_add = arith (\<lambda>a b. Inr (PyInt (a + b))) (\<lambda>x y. Inr (float_add x y))"

definition py_sub :: "pyval \<Rightarrow> pyval \<Rightarrow> error + pyval" where
  "py_sub = arith (\<lambda>a b. Inr (PyInt (a - b))) (\<lambda>x y. Inr (float_sub x y))"

definition py_mul :: "pyval \<Rightarrow> pyval \<Rightarrow> error + pyval" where
  "py_mul = arith (\<lambda>a b. Inr (PyInt (a * b))) (\<lambda>x y. Inr (float_mul x y))"

definition py_truediv :: "pyval \<Rightarrow> pyval \<Rightarrow> error + pyval" where
  "py_truediv = arith int_truediv float_truediv"

subsection \<open>\<open>eval\<close> on a token of digits and dots\<close>

text \<open>
  Only non-empty strings over the digits and \<open>.\<close> reach \<open>eval\<close>. Such a string is a
  decimal integer literal (all digits; a leading zero is allowed only when every digit is
  zero), the ellipsis \<open>...\<close>, a float literal (one dot and at least one digit), or not an
  expression, which raises \<open>SyntaxError\<close>. Any other string is outside the model and is
  given \<open>SyntaxError\<close> too. Integers are unbounded, as the language has them; the cap
  that some interpreters put on the number of digits of an integer literal is a setting
  of the interpreter and is left out. \<open>digit_value\<close> is the place of a digit in
  \<open>0123456789\<close>, and is applied to digits only.
\<close>

definition is_digit :: "char \<Rightarrow> bool" where
  "is_digit c = (c \<in> set ''0123456789'')"

definition digit_value :: "char \<Rightarrow> nat" where
  "digit_value c = length (takeWhile (\<lambda>d. d \<noteq> c) ''0123456789'')"

definition decimal :: "string \<Rightarrow> nat" where
  "decimal ds = foldl (\<lambda>a c. 10 * a + digit_value c) 0 ds"

definition py_eval :: "string \<Rightarrow> error + pyval" where
  "py_eval src =
     (if src \<noteq> [] \<and> list_all is_digit src then
        (if hd src = CHR ''0'' \<and> \<not> list_all (\<lambda>c. c = CHR ''0'') src then Inl SyntaxError
         else Inr (PyInt (int (decimal src))))
      else if src = ''...'' then Inr Ellipsis
      else if list_all (\<lambda>c. is_digit c \<or> c = CHR ''.'') src
              \<and> length (filter (\<lambda>c. c = CHR ''.'') src) = 1 \<and> 2 \<le> length src then
        Inr (PyFloat (round_binary64
          (of_nat (decimal (takeWhile is_digit src))
           + of_nat (decimal (tl (dropWhile is_digit src)))
             / 10 ^ length (tl (dropWhile is_digit src)))))
      else Inl SyntaxError)"

section \<open>The grammar\<close>

text \<open>
  \<open>operator\<close> applies the parsed function to the two operands inside the \<open>do\<close> block, so
  an exception of the arithmetic is raised by the parse itself.
\<close>

definition operator ::
  "('a \<Rightarrow> 'b \<Rightarrow> error + 'c) Parser \<Rightarrow> 'a Parser \<Rightarrow> 'b Parser \<Rightarrow> 'c Parser" where
  "operator pop pn1 pn2 =
     Parser_bind pn1 (\<lambda>n1. Parser_bind pop (\<lambda>op. Parser_bind pn2 (\<lambda>n2.
       (case op n1 n2 of Inl e \<Rightarrow> throw e | Inr v \<Rightarrow> Parser_ret v))))"

definition plus :: "(pyval \<Rightarrow> pyval \<Rightarrow> error + pyval) Parser" where
  "plus = Parser_bind (Symb ''+'') (\<lambda>u. Parser_ret py_add)"

definition minus :: "(pyval \<Rightarrow> pyval \<Rightarrow> error + pyval) Parser" where
  "minus = Parser_bind (Symb ''-'') (\<lambda>u. Parser_ret py_sub)"

definition addop :: "pyval Parser \<Rightarrow> pyval Parser \<Rightarrow> pyval Parser" where
  "addop pn1 pn2 = operator (Parser_or plus minus) pn1 pn2"

definition times :: "(pyval \<Rightarrow> pyval \<Rightarrow> error + pyval) Parser" where
  "times = Parser_bind (Symb ''*'') (\<lambda>u. Parser_ret py_mul)"

definition divide :: "(pyval \<Rightarrow> pyval \<Rightarrow> error + pyval) Parser" where
  "divide = Parser_bind (Symb ''/'') (\<lambda>u. Parser_ret py_truediv)"

definition mulop :: "pyval Parser \<Rightarrow> pyval Parser \<Rightarrow> pyval Parser" where
  "mulop pn1 pn2 = operator (Parser_or times divide) pn1 pn2"

text \<open>
  \<open>digits\<close>: the token is a list of one-character strings, joined and handed to \<open>eval\<close>;
  here it is the list of its characters.
\<close>

definition one :: "char Parser" where
  "one = Sat (\<lambda>z. z \<in> set ''1234567890.'')"

definition digits :: "pyval Parser" where
  "digits context =
     (case token (many1 one) context of
        None \<Rightarrow> None
      | Some (Inl e) \<Rightarrow> Some (Inl e)
      | Some (Inr (x, context')) \<Rightarrow>
          (case py_eval x of
             Inl e \<Rightarrow> Some (Inl e)
           | Inr v \<Rightarrow> Some (Inr (v, context'))))"

lemma operator_mono [partial_function_mono]:
  fixes A :: "('x \<Rightarrow> 'y option) \<Rightarrow> 'a Parser"
  assumes "\<And>c. mono_option (\<lambda>f. A f c)" and "\<And>c. mono_option (\<lambda>f. B f c)"
  shows "mono_option (\<lambda>f. operator pop (A f) (B f) ctx)"
  unfolding operator_def by (intro partial_function_mono assms)

lemma addop_mono [partial_function_mono]:
  fixes A :: "('x \<Rightarrow> 'y option) \<Rightarrow> pyval Parser"
  assumes "\<And>c. mono_option (\<lambda>f. A f c)" and "\<And>c. mono_option (\<lambda>f. B f c)"
  shows "mono_option (\<lambda>f. addop (A f) (B f) ctx)"
  unfolding addop_def by (intro partial_function_mono assms)

lemma mulop_mono [partial_function_mono]:
  fixes A :: "('x \<Rightarrow> 'y option) \<Rightarrow> pyval Parser"
  assumes "\<And>c. mono_option (\<lambda>f. A f c)" and "\<And>c. mono_option (\<lambda>f. B f c)"
  shows "mono_option (\<lambda>f. mulop (A f) (B f) ctx)"
  unfolding mulop_def by (intro partial_function_mono assms)

text \<open>
  \<open>expr\<close>, \<open>term\<close> and \<open>factor\<close> are three parsers that call each other through their
  global names; \<open>grammar\<close> is the three of them in one recursive function, indexed by the
  name of the rule.
\<close>

datatype grammar_rule = Expr | Term | Factor

partial_function (option) grammar :: "grammar_rule \<Rightarrow> Context \<Rightarrow> pyval outcome option" where
  "grammar nt context =
     (case nt of
        Expr \<Rightarrow> Parser_or (addop (grammar Term) (grammar Expr)) (grammar Term) context
      | Term \<Rightarrow> Parser_or (mulop (grammar Factor) (grammar Term)) (grammar Factor) context
      | Factor \<Rightarrow>
          Parser_or digits
            (Parser_bind (Symb ''('') (\<lambda>u. Parser_bind (grammar Expr) (\<lambda>n.
               Parser_bind (Symb '')'') (\<lambda>v. Parser_ret n))))
            context)"

definition expr :: "pyval Parser" where
  "expr = grammar Expr"

definition "term" :: "pyval Parser" where
  "term = grammar Term"

definition factor :: "pyval Parser" where
  "factor = grammar Factor"

text \<open>
  The body of the \<open>try\<close> block of \<open>main\<close>: the line is parsed by \<open>expr\<close> from a fresh
  cursor, and the value comes with the text that \<open>rest_str\<close> finds left over.
\<close>

definition parse :: "string \<Rightarrow> (error + pyval \<times> string) option" where
  "parse line =
     (case expr (Context_init line 0) of
        None \<Rightarrow> None
      | Some (Inl e) \<Rightarrow> Some (Inl e)
      | Some (Inr (v, ctx)) \<Rightarrow> Some (Inr (v, Context_rest_str ctx)))"

section \<open>Cursors in range\<close>

text \<open>
  The constructor of \<open>Context\<close> strips the text it is given, and no other code assigns the
  two fields, so the text of every cursor of the program is a fixed point of \<open>strip\<close>.
  \<open>wf_cursor\<close> holds of such a cursor when its position is between 0 and the length of
  its text. \<open>keeps_cursor p\<close>: from a cursor in range, a success of \<open>p\<close> ends in a cursor in
  range over the same text.
\<close>

definition wf_cursor :: "Context \<Rightarrow> bool" where
  "wf_cursor c = (strip (s c) = s c \<and> 0 \<le> pos c \<and> pos c \<le> int (length (s c)))"

definition keeps_cursor :: "'a Parser \<Rightarrow> bool" where
  "keeps_cursor p =
     (\<forall>c x c'. wf_cursor c \<longrightarrow> p c = Some (Inr (x, c')) \<longrightarrow> s c' = s c \<and> wf_cursor c')"


section \<open>Running the parsers on concrete input\<close>

lemmas eval_defs =
  parse_def expr_def term_def factor_def grammar.simps Many.simps many1_def
  Parser_or_def Parser_bind_def Parser_ret_def throw_def Sat_def Char_parser_def
  String_parser_def space_def token_def Symb_def operator_def plus_def minus_def times_def
  divide_def addop_def mulop_def one_def digits_def Context_init_def Context_at_def
  Context_pick_def Context_next_def Context_rest_str_def strip_def isspace_def py_eval_def
  decimal_def digit_value_def is_digit_def py_add_def py_sub_def py_mul_def py_truediv_def

lemma int_truediv_3_2: "int_truediv 3 2 = Inr (PyFloat (Finite (3 / 2)))"
  by code_simp

lemma int_to_float_12: "int_to_float 12 = Inr (Finite 12)"
  by code_simp

lemma float_truediv_12_3_2: "float_truediv (Finite 12) (Finite (3 / 2)) = Inr (Finite 8)"
  by code_simp

lemma int_truediv_1_0: "int_truediv 1 0 = Inl ZeroDivisionError"
  by (simp add: int_truediv_def)

section \<open>Associativity and precedence\<close>

text \<open>
  C2. The binary operators parse to the right: \<open>10-3-2\<close> is \<open>10-(3-2)\<close>, the integer 9,
  and \<open>12/3/2\<close> is \<open>12/(3/2)\<close>, the float 8.0; both leave nothing of the input.
\<close>

theorem operators_associate_to_the_right:
  "parse ''10-3-2'' = Some (Inr (PyInt 9, ''''))
   \<and> parse ''12/3/2'' = Some (Inr (PyFloat (Finite 8), ''''))"
  by (simp add: eval_defs int_truediv_3_2 int_to_float_12 float_truediv_12_3_2)

text \<open>
  C3. Multiplication binds tighter than addition, and parentheses override precedence
  and associativity: \<open>2+3*4\<close> is 14, \<open>(2+3)*4\<close> is 20 and \<open>(10-3)-2\<close> is 5.
\<close>

theorem precedence_and_parentheses:
  "parse ''2+3*4'' = Some (Inr (PyInt 14, ''''))
   \<and> parse ''(2+3)*4'' = Some (Inr (PyInt 20, ''''))
   \<and> parse ''(10-3)-2'' = Some (Inr (PyInt 5, ''''))"
  by (simp add: eval_defs)

section \<open>Ordered choice and the kinds of failure\<close>

text \<open>
  C4. \<open>a | b\<close> runs \<open>a\<close> on the cursor. When \<open>a\<close> succeeds its outcome is the result
  whatever \<open>b\<close> is, even a parser that never returns, so \<open>b\<close> is not run. When \<open>a\<close> raises
  a \<open>ParsingError\<close>, the result is that of \<open>b\<close> on the same cursor; in particular when
  \<open>b\<close> raises too, it is the exception of \<open>b\<close> that comes out.
\<close>

theorem or_ordered_choice:
  "(a ctx = Some (Inr r) \<longrightarrow>
      Parser_or a b ctx = Some (Inr r) \<and> Parser_or a (\<lambda>c. None) ctx = Some (Inr r))
   \<and> (a ctx = Some (Inl (ParsingError msg c)) \<longrightarrow> Parser_or a b ctx = b ctx)
   \<and> (a ctx = Some (Inl (ParsingError msg c)) \<and> b ctx = Some (Inl e) \<longrightarrow>
        Parser_or a b ctx = Some (Inl e))"
  by (simp add: Parser_or_def)

theorem or_ordered_choice_witness:
  "Char_parser CHR ''y'' (Context_init ''y'' 0) = Some (Inr (CHR ''y'', \<lparr>s = ''y'', pos = 1\<rparr>))
   \<and> Parser_or (Char_parser CHR ''y'') (\<lambda>c. None) (Context_init ''y'' 0)
       = Some (Inr (CHR ''y'', \<lparr>s = ''y'', pos = 1\<rparr>))
   \<and> Char_parser CHR ''x'' (Context_init ''y'' 0)
       = Some (Inl (ParsingError ''Unexpected Char: y'' \<lparr>s = ''y'', pos = 0\<rparr>))
   \<and> Parser_or (Char_parser CHR ''x'') (Char_parser CHR ''y'') (Context_init ''y'' 0)
       = Some (Inr (CHR ''y'', \<lparr>s = ''y'', pos = 1\<rparr>))
   \<and> Char_parser CHR ''z'' (Context_init ''y'' 0)
       = Some (Inl (ParsingError ''Unexpected Char: y'' \<lparr>s = ''y'', pos = 0\<rparr>))
   \<and> Parser_or (Char_parser CHR ''x'') (Char_parser CHR ''z'') (Context_init ''y'' 0)
       = Some (Inl (ParsingError ''Unexpected Char: y'' \<lparr>s = ''y'', pos = 0\<rparr>))"
proof -
  have y: "Char_parser CHR ''y'' (Context_init ''y'' 0)
      = Some (Inr (CHR ''y'', \<lparr>s = ''y'', pos = 1\<rparr>))"
    by (simp add: eval_defs)
  have x: "Char_parser CHR ''x'' (Context_init ''y'' 0)
      = Some (Inl (ParsingError ''Unexpected Char: y'' \<lparr>s = ''y'', pos = 0\<rparr>))"
    by (simp add: eval_defs)
  have z: "Char_parser CHR ''z'' (Context_init ''y'' 0)
      = Some (Inl (ParsingError ''Unexpected Char: y'' \<lparr>s = ''y'', pos = 0\<rparr>))"
    by (simp add: eval_defs)
  show ?thesis
    using y x z
      or_ordered_choice [of "Char_parser CHR ''y''" "Context_init ''y'' 0"
        "(CHR ''y'', \<lparr>s = ''y'', pos = 1\<rparr>)" "Char_parser CHR ''x''"]
      or_ordered_choice [of "Char_parser CHR ''x''" "Context_init ''y'' 0" _
        "Char_parser CHR ''y''" "''Unexpected Char: y''" "\<lparr>s = ''y'', pos = 0\<rparr>"]
      or_ordered_choice [of "Char_parser CHR ''x''" "Context_init ''y'' 0" _
        "Char_parser CHR ''z''" "''Unexpected Char: y''" "\<lparr>s = ''y'', pos = 0\<rparr>"
        "ParsingError ''Unexpected Char: y'' \<lparr>s = ''y'', pos = 0\<rparr>"]
    by simp
qed

text \<open>
  C5. On \<open>1/0\<close> every part of the input is parsed: \<open>factor\<close> reads the 1, \<open>divide\<close> the
  operator and \<open>term\<close> the 0, up to the end of the text. Applying the division then
  raises \<open>ZeroDivisionError\<close>, which is not a \<open>ParsingError\<close>; \<open>|\<close> lets it through
  whatever its second parser is, and it is the outcome of the whole parse.
\<close>

theorem division_by_zero_is_not_a_parse_failure:
  "factor (Context_init ''1/0'' 0) = Some (Inr (PyInt 1, \<lparr>s = ''1/0'', pos = 1\<rparr>))
   \<and> divide \<lparr>s = ''1/0'', pos = 1\<rparr> = Some (Inr (py_truediv, \<lparr>s = ''1/0'', pos = 2\<rparr>))
   \<and> term \<lparr>s = ''1/0'', pos = 2\<rparr> = Some (Inr (PyInt 0, \<lparr>s = ''1/0'', pos = 3\<rparr>))
   \<and> py_truediv (PyInt 1) (PyInt 0) = Inl ZeroDivisionError
   \<and> \<not> is_ParsingError ZeroDivisionError
   \<and> Parser_or (throw ZeroDivisionError) other ctx = Some (Inl ZeroDivisionError)
   \<and> parse ''1/0'' = Some (Inl ZeroDivisionError)"
  by (simp add: eval_defs int_truediv_1_0)

text \<open>
  C6. Input left over is not a parse failure: \<open>1+2)\<close> parses to 3 and leaves \<open>)\<close>,
  while \<open>(1+2\<close> raises a \<open>ParsingError\<close> (at the end of the text, where the closing
  parenthesis is missing), so no value and no rest come back.
\<close>

theorem extra_input_is_not_a_failure:
  "parse ''1+2)'' = Some (Inr (PyInt 3, '')''))
   \<and> parse ''(1+2'' = Some (Inl (ParsingError ''Error'' \<lparr>s = ''(1+2'', pos = 4\<rparr>))"
  by (simp add: eval_defs)

text \<open>
  C10. A token that the number rule accepts character by character need not be a
  numeral: on \<open>.\<close> and on \<open>1..2\<close> the call of \<open>eval\<close> in \<open>digits\<close> raises \<open>SyntaxError\<close>,
  which is not a \<open>ParsingError\<close>. The alternative of \<open>factor\<close> is not tried, and the
  parse of the line ends with that exception: it neither succeeds nor reports a
  \<open>ParsingError\<close>.
\<close>

theorem invalid_numeral_escapes_choice:
  "digits (Context_init ''.'' 0) = Some (Inl SyntaxError)
   \<and> digits (Context_init ''1..2'' 0) = Some (Inl SyntaxError)
   \<and> \<not> is_ParsingError SyntaxError
   \<and> factor (Context_init ''.'' 0) = Some (Inl SyntaxError)
   \<and> parse ''.'' = Some (Inl SyntaxError)
   \<and> parse ''1..2'' = Some (Inl SyntaxError)"
  by (simp add: eval_defs)

section \<open>The end of the input\<close>

text \<open>
  C7, as the specification words it: at the end of the input \<open>pick\<close> would raise a
  \<open>ParsingError\<close> with the message \<open>unexpected end of input\<close>. It does not: the message
  is \<open>Error\<close>.
\<close>

theorem pick_message_counterexample:
  "Context_pick (Context_init ''ab'' 2)
     \<noteq> Inl (ParsingError ''unexpected end of input'' (Context_init ''ab'' 2))"
  by (simp add: eval_defs)

text \<open>
  C7, amended. For every cursor whose position is at the end of the text or beyond,
  \<open>pick\<close> raises a \<open>ParsingError\<close> whose message is \<open>Error\<close> and which carries that cursor.
\<close>

theorem pick_at_end_of_input:
  "int (length (s c)) \<le> pos c \<Longrightarrow> Context_pick c = Inl (ParsingError ''Error'' c)"
  by (simp add: Context_pick_def Context_at_def)

theorem pick_at_end_of_input_witness:
  "int (length (s (Context_init ''ab'' 2))) \<le> pos (Context_init ''ab'' 2)
   \<and> Context_pick (Context_init ''ab'' 2) = Inl (ParsingError ''Error'' (Context_init ''ab'' 2))"
proof -
  have h: "int (length (s (Context_init ''ab'' 2))) \<le> pos (Context_init ''ab'' 2)"
    by (simp add: Context_init_def strip_def isspace_def)
  show ?thesis
    using h pick_at_end_of_input [OF h] by simp
qed

section \<open>Properties of the combinators\<close>

subsection \<open>Stripped text\<close>

lemma strip_fixed:
  "x = [] \<or> (\<not> isspace (hd x) \<and> \<not> isspace (last x)) \<Longrightarrow> strip x = x"
proof (cases "x = []")
  case True
  then show ?thesis by (simp add: strip_def)
next
  case False
  assume "x = [] \<or> (\<not> isspace (hd x) \<and> \<not> isspace (last x))"
  with False have h: "\<not> isspace (hd x)" and l: "\<not> isspace (last x)" by simp_all
  from False h have a: "dropWhile isspace x = x" by (cases x) simp_all
  from False l have "\<not> isspace (hd (rev x))" by (simp add: hd_rev)
  with False have b: "dropWhile isspace (rev x) = rev x" by (cases "rev x") simp_all
  show ?thesis by (simp add: strip_def a b)
qed

lemma strip_strip: "strip (strip x) = strip x"
proof -
  define y where "y = dropWhile isspace x"
  define z where "z = rev (dropWhile isspace (rev y))"
  have z: "strip x = z" by (simp add: strip_def y_def z_def)
  have y_hd: "y = [] \<or> \<not> isspace (hd y)"
    unfolding y_def by (metis hd_dropWhile)
  have zy: "y = z @ rev (takeWhile isspace (rev y))"
    unfolding z_def by (metis rev_append rev_rev_ident takeWhile_dropWhile_id)
  have z_last: "z = [] \<or> \<not> isspace (last z)"
    unfolding z_def by (metis hd_dropWhile last_rev rev_is_Nil_conv)
  have z_hd: "z = [] \<or> \<not> isspace (hd z)"
  proof (cases "z = []")
    case True
    then show ?thesis by simp
  next
    case False
    then have "hd (z @ rev (takeWhile isspace (rev y))) = hd z" by simp
    with zy have hd: "hd y = hd z" by simp
    from False zy have "y \<noteq> []" by auto
    with y_hd hd show ?thesis by simp
  qed
  show ?thesis
    unfolding z using strip_fixed [of z] z_hd z_last by blast
qed

lemma Context_next_stripped:
  "strip (s c) = s c \<Longrightarrow> Context_next c = c\<lparr>pos := pos c + 1\<rparr>"
  by (cases c) (simp add: Context_next_def Context_init_def)

subsection \<open>One character\<close>

lemma Sat_end:
  "int (length (s c)) \<le> pos c \<Longrightarrow> Sat P c = Some (Inl (ParsingError ''Error'' c))"
  by (simp add: Sat_def Context_pick_def Context_at_def)

lemma Sat_inside:
  "0 \<le> pos c \<Longrightarrow> pos c < int (length (s c)) \<Longrightarrow>
   Sat P c =
     (if P (s c ! nat (pos c)) then Some (Inr (s c ! nat (pos c), Context_next c))
      else Some (Inl (ParsingError (''Unexpected Char: '' @ [s c ! nat (pos c)]) c)))"
  by (simp add: Sat_def Context_pick_def Context_at_def)





subsection \<open>Repetition, one step at a time\<close>


lemma Many_raise:
  "p c = Some (Inl e) \<Longrightarrow> \<not> is_ParsingError e \<Longrightarrow> Many p c = Some (Inl e)"
  by (subst Many.simps) (simp add: Parser_or_def Parser_bind_def Parser_ret_def)


lemma Many_is_or: "Many p c = Parser_or (many1 p) (Parser_ret []) c"
  by (subst Many.simps) (simp add: many1_def)

lemma Many_no_ParsingError: "Many p c = Some (Inl e) \<Longrightarrow> \<not> is_ParsingError e"
  by (subst (asm) Many.simps)
    (auto simp: Parser_or_def Parser_ret_def split: option.splits sum.splits if_splits)






subsection \<open>Repetition of one character test\<close>


section \<open>A line that is one numeral\<close>

subsection \<open>A token that is the whole text\<close>




subsection \<open>No operator at the end of the text\<close>






subsection \<open>The value of a numeral\<close>






section \<open>Parsers that keep the cursor in range\<close>

lemma keeps_cursorI:
  "(\<And>c x c'. wf_cursor c \<Longrightarrow> p c = Some (Inr (x, c')) \<Longrightarrow> s c' = s c \<and> wf_cursor c') \<Longrightarrow>
   keeps_cursor p"
  unfolding keeps_cursor_def by blast

lemma keeps_cursorD:
  "keeps_cursor p \<Longrightarrow> wf_cursor c \<Longrightarrow> p c = Some (Inr (x, c')) \<Longrightarrow> s c' = s c \<and> wf_cursor c'"
  unfolding keeps_cursor_def by blast

lemma keeps_Sat: "keeps_cursor (Sat P)"
proof (rule keeps_cursorI)
  fix c x c'
  assume wf: "wf_cursor c" and r: "Sat P c = Some (Inr (x, c'))"
  from wf have st: "strip (s c) = s c" and p0: "0 \<le> pos c" by (simp_all add: wf_cursor_def)
  have lt: "pos c < int (length (s c))"
  proof (rule ccontr)
    assume "\<not> pos c < int (length (s c))"
    then have "int (length (s c)) \<le> pos c" by simp
    from Sat_end [OF this] r show False by simp
  qed
  from r have c': "c' = Context_next c"
    by (simp add: Sat_inside [OF p0 lt] split: if_splits)
  with Context_next_stripped [OF st] have "c' = c\<lparr>pos := pos c + 1\<rparr>" by simp
  with st p0 lt show "s c' = s c \<and> wf_cursor c'" by (simp add: wf_cursor_def)
qed

lemma keeps_ret: "keeps_cursor (Parser_ret x)"
  by (rule keeps_cursorI) (simp add: Parser_ret_def)

lemma keeps_throw: "keeps_cursor (throw e)"
  by (rule keeps_cursorI) (simp add: throw_def)

lemma keeps_bind:
  assumes a: "keeps_cursor a" and f: "\<And>x. keeps_cursor (f x)"
  shows "keeps_cursor (Parser_bind a f)"
proof (rule keeps_cursorI)
  fix c x c'
  assume wf: "wf_cursor c" and r: "Parser_bind a f c = Some (Inr (x, c'))"
  from r obtain y c1 where a1: "a c = Some (Inr (y, c1))" and f1: "f y c1 = Some (Inr (x, c'))"
    by (auto simp: Parser_bind_def split: option.splits sum.splits)
  from keeps_cursorD [OF a wf a1] have "s c1 = s c" "wf_cursor c1" by simp_all
  moreover from keeps_cursorD [OF f \<open>wf_cursor c1\<close> f1] have "s c' = s c1" "wf_cursor c'"
    by simp_all
  ultimately show "s c' = s c \<and> wf_cursor c'" by simp
qed

lemma keeps_or:
  assumes a: "keeps_cursor a" and b: "keeps_cursor b"
  shows "keeps_cursor (Parser_or a b)"
proof (rule keeps_cursorI)
  fix c x c'
  assume wf: "wf_cursor c" and r: "Parser_or a b c = Some (Inr (x, c'))"
  from r have "a c = Some (Inr (x, c')) \<or> b c = Some (Inr (x, c'))"
    by (auto simp: Parser_or_def split: option.splits sum.splits if_splits)
  then show "s c' = s c \<and> wf_cursor c'"
    using keeps_cursorD [OF a wf] keeps_cursorD [OF b wf] by blast
qed

lemma Char_parser_eq: "Char_parser ch = Sat (\<lambda>x. x = ch)"
  by (rule ext) (simp add: Char_parser_def)

lemma keeps_Char: "keeps_cursor (Char_parser ch)"
  unfolding Char_parser_eq by (rule keeps_Sat)

lemma String_loop_keeps:
  "wf_cursor c \<Longrightarrow> String_loop str c = Some (Inr c') \<Longrightarrow> s c' = s c \<and> wf_cursor c'"
proof (induction str arbitrary: c)
  case Nil
  then show ?case by simp
next
  case (Cons ch rest)
  from Cons.prems(2) obtain x c1 where
    c1: "Char_parser ch c = Some (Inr (x, c1))" and rest: "String_loop rest c1 = Some (Inr c')"
    by (auto split: option.splits sum.splits)
  from keeps_cursorD [OF keeps_Char Cons.prems(1) c1] have "s c1 = s c" "wf_cursor c1"
    by simp_all
  with Cons.IH [OF _ rest] show ?case by simp
qed

lemma keeps_String: "keeps_cursor (String_parser str)"
proof (rule keeps_cursorI)
  fix c x c'
  assume wf: "wf_cursor c" and r: "String_parser str c = Some (Inr (x, c'))"
  from r have "String_loop str c = Some (Inr c')"
    by (auto simp: String_parser_def split: option.splits sum.splits)
  with wf show "s c' = s c \<and> wf_cursor c'" by (rule String_loop_keeps)
qed

lemma Many_keeps_aux:
  assumes "Many p c = Some y"
  shows "keeps_cursor p \<longrightarrow> wf_cursor c \<longrightarrow> (\<forall>x c'. y = Inr (x, c') \<longrightarrow> s c' = s c \<and> wf_cursor c')"
proof (rule Many.raw_induct [where P = "\<lambda>p c y. keeps_cursor p \<longrightarrow> wf_cursor c \<longrightarrow>
    (\<forall>x c'. y = Inr (x, c') \<longrightarrow> s c' = s c \<and> wf_cursor c')", OF _ assms])
  fix M :: "'a Parser \<Rightarrow> Context \<Rightarrow> 'a list outcome option" and q ctx pa
  assume IH: "\<And>q' c0 y'. M q' c0 = Some y' \<Longrightarrow> keeps_cursor q' \<longrightarrow> wf_cursor c0 \<longrightarrow>
      (\<forall>x c'. y' = Inr (x, c') \<longrightarrow> s c' = s c0 \<and> wf_cursor c')"
    and body: "Parser_or
       (Parser_bind q (\<lambda>x. Parser_bind (M q) (\<lambda>xs. Parser_ret ([x] @ xs))))
       (Parser_ret []) ctx = Some pa"
  show "keeps_cursor q \<longrightarrow> wf_cursor ctx \<longrightarrow>
      (\<forall>x c'. pa = Inr (x, c') \<longrightarrow> s c' = s ctx \<and> wf_cursor c')"
  proof (intro impI allI)
    fix x c'
    assume kq: "keeps_cursor q" and wf: "wf_cursor ctx" and pa: "pa = Inr (x, c')"
    have kM: "keeps_cursor (M q)"
    proof (rule keeps_cursorI)
      fix c0 x0 c1
      assume "wf_cursor c0" and "M q c0 = Some (Inr (x0, c1))"
      with IH [of q c0 "Inr (x0, c1)"] kq show "s c1 = s c0 \<and> wf_cursor c1" by simp
    qed
    have "keeps_cursor (Parser_or
       (Parser_bind q (\<lambda>x. Parser_bind (M q) (\<lambda>xs. Parser_ret ([x] @ xs))))
       (Parser_ret []))"
      by (intro keeps_or keeps_bind keeps_ret kq kM)
    from keeps_cursorD [OF this wf] body pa show "s c' = s ctx \<and> wf_cursor c'" by simp
  qed
qed

lemma keeps_Many:
  assumes "keeps_cursor p"
  shows "keeps_cursor (Many p)"
proof (rule keeps_cursorI)
  fix c x c'
  assume wf: "wf_cursor c" and r: "Many p c = Some (Inr (x, c'))"
  from Many_keeps_aux [OF r] assms wf show "s c' = s c \<and> wf_cursor c'" by simp
qed

lemma keeps_many1: "keeps_cursor p \<Longrightarrow> keeps_cursor (many1 p)"
  unfolding many1_def by (intro keeps_bind keeps_ret keeps_Many)

lemma space_eq: "space = Many (Sat (\<lambda>x. x \<in> set [CHR 0x20, CHR 0x09, CHR 0x0A, CHR 0x0D]))"
  by (rule ext) (simp add: space_def)

lemma keeps_space: "keeps_cursor space"
  unfolding space_eq by (rule keeps_Many [OF keeps_Sat])

lemma keeps_token: "keeps_cursor p \<Longrightarrow> keeps_cursor (token p)"
  unfolding token_def by (intro keeps_bind keeps_ret keeps_space)

lemma Symb_eq: "Symb str = token (String_parser str)"
  by (rule ext) (simp add: Symb_def)

lemma keeps_Symb: "keeps_cursor (Symb str)"
  unfolding Symb_eq by (rule keeps_token [OF keeps_String])

lemma keeps_operator:
  "keeps_cursor pop \<Longrightarrow> keeps_cursor pn1 \<Longrightarrow> keeps_cursor pn2 \<Longrightarrow>
   keeps_cursor (operator pop pn1 pn2)"
proof -
  assume pop: "keeps_cursor pop" and pn1: "keeps_cursor pn1" and pn2: "keeps_cursor pn2"
  have last: "keeps_cursor (case r of Inl e \<Rightarrow> throw e | Inr v \<Rightarrow> Parser_ret v)"
    for r :: "error + 'c"
    by (cases r) (simp_all add: keeps_ret keeps_throw)
  show ?thesis
    unfolding operator_def by (intro keeps_bind pn1 pop pn2 last)
qed

lemma keeps_addop: "keeps_cursor pn1 \<Longrightarrow> keeps_cursor pn2 \<Longrightarrow> keeps_cursor (addop pn1 pn2)"
  unfolding addop_def plus_def minus_def
  by (intro keeps_operator keeps_or keeps_bind keeps_ret keeps_Symb)

lemma keeps_mulop: "keeps_cursor pn1 \<Longrightarrow> keeps_cursor pn2 \<Longrightarrow> keeps_cursor (mulop pn1 pn2)"
  unfolding mulop_def times_def divide_def
  by (intro keeps_operator keeps_or keeps_bind keeps_ret keeps_Symb)

lemma keeps_digits: "keeps_cursor digits"
proof (rule keeps_cursorI)
  fix c x c'
  assume wf: "wf_cursor c" and r: "digits c = Some (Inr (x, c'))"
  from r obtain tok where "token (many1 one) c = Some (Inr (tok, c'))"
    by (auto simp: digits_def split: option.splits sum.splits)
  moreover have "keeps_cursor (token (many1 one))"
    unfolding one_def by (intro keeps_token keeps_many1 keeps_Sat)
  ultimately show "s c' = s c \<and> wf_cursor c'" using wf by (blast dest: keeps_cursorD)
qed

lemma grammar_keeps_aux:
  assumes "grammar nt c = Some y"
  shows "wf_cursor c \<longrightarrow> (\<forall>x c'. y = Inr (x, c') \<longrightarrow> s c' = s c \<and> wf_cursor c')"
proof (rule grammar.raw_induct [where P = "\<lambda>nt c y. wf_cursor c \<longrightarrow>
    (\<forall>x c'. y = Inr (x, c') \<longrightarrow> s c' = s c \<and> wf_cursor c')", OF _ assms])
  fix G :: "grammar_rule \<Rightarrow> Context \<Rightarrow> pyval outcome option" and r ctx pa
  assume IH: "\<And>r' c0 y'. G r' c0 = Some y' \<Longrightarrow> wf_cursor c0 \<longrightarrow>
      (\<forall>x c'. y' = Inr (x, c') \<longrightarrow> s c' = s c0 \<and> wf_cursor c')"
    and body: "(case r of
        Expr \<Rightarrow> Parser_or (addop (G Term) (G Expr)) (G Term) ctx
      | Term \<Rightarrow> Parser_or (mulop (G Factor) (G Term)) (G Factor) ctx
      | Factor \<Rightarrow>
          Parser_or digits
            (Parser_bind (Symb ''('') (\<lambda>u. Parser_bind (G Expr) (\<lambda>n.
               Parser_bind (Symb '')'') (\<lambda>v. Parser_ret n))))
            ctx) = Some pa"
  have kG: "keeps_cursor (G r')" for r'
  proof (rule keeps_cursorI)
    fix c0 x0 c1
    assume "wf_cursor c0" and "G r' c0 = Some (Inr (x0, c1))"
    with IH [of r' c0 "Inr (x0, c1)"] show "s c1 = s c0 \<and> wf_cursor c1" by simp
  qed
  have kE: "keeps_cursor (Parser_or (addop (G Term) (G Expr)) (G Term))"
    by (intro keeps_or keeps_addop kG)
  have kT: "keeps_cursor (Parser_or (mulop (G Factor) (G Term)) (G Factor))"
    by (intro keeps_or keeps_mulop kG)
  have kF: "keeps_cursor (Parser_or digits
            (Parser_bind (Symb ''('') (\<lambda>u. Parser_bind (G Expr) (\<lambda>n.
               Parser_bind (Symb '')'') (\<lambda>v. Parser_ret n)))))"
    by (intro keeps_or keeps_digits keeps_bind keeps_Symb keeps_ret kG)
  show "wf_cursor ctx \<longrightarrow> (\<forall>x c'. pa = Inr (x, c') \<longrightarrow> s c' = s ctx \<and> wf_cursor c')"
  proof (intro impI allI)
    fix x c'
    assume wf: "wf_cursor ctx" and pa: "pa = Inr (x, c')"
    show "s c' = s ctx \<and> wf_cursor c'"
    proof (cases r)
      case Expr
      with body pa keeps_cursorD [OF kE wf] show ?thesis by simp
    next
      case Term
      with body pa keeps_cursorD [OF kT wf] show ?thesis by simp
    next
      case Factor
      with body pa keeps_cursorD [OF kF wf] show ?thesis by simp
    qed
  qed
qed

lemma keeps_grammar: "keeps_cursor (grammar nt)"
proof (rule keeps_cursorI)
  fix c x c'
  assume wf: "wf_cursor c" and r: "grammar nt c = Some (Inr (x, c'))"
  from grammar_keeps_aux [OF r] wf show "s c' = s c \<and> wf_cursor c'" by simp
qed

section \<open>Numerals\<close>





section \<open>Repetition of a parser\<close>




section \<open>The cursor invariant\<close>

lemma wf_cursor_init:
  "wf_cursor (Context_init t n) = (0 \<le> n \<and> n \<le> int (length (strip t)))"
  by (simp add: wf_cursor_def Context_init_def strip_strip)

lemma Context_next_init: "Context_next (Context_init t n) = Context_init t (n + 1)"
  by (simp add: Context_next_def Context_init_def strip_strip)

text \<open>
  C9. The cursors of the program are those the constructor makes, and such a cursor is
  in range exactly when its position is between 0 and the length of the stripped text.
  From a cursor in range, every success of \<open>Sat\<close>, \<open>Char\<close> and \<open>String\<close>, of \<open>|\<close> and
  \<open>bind\<close> over parsers that keep cursors in range, of \<open>Many\<close>, \<open>many1\<close> and \<open>token\<close> over
  such a parser, and of \<open>digits\<close>, \<open>factor\<close>, \<open>term\<close> and \<open>expr\<close>, ends in a cursor in range
  over the same text. \<open>next\<close> returns a cursor built from the same text and the position
  plus one; the cursor it is called on is a value and stays what it was.
\<close>

theorem parsers_keep_cursor_in_range:
  "wf_cursor (Context_init t n) = (0 \<le> n \<and> n \<le> int (length (strip t)))
   \<and> keeps_cursor (Sat P) \<and> keeps_cursor (Char_parser ch) \<and> keeps_cursor (String_parser str)
   \<and> (keeps_cursor a \<and> keeps_cursor b \<longrightarrow> keeps_cursor (Parser_or a b))
   \<and> (keeps_cursor q \<and> (\<forall>x. keeps_cursor (f x)) \<longrightarrow> keeps_cursor (Parser_bind q f))
   \<and> (keeps_cursor p \<longrightarrow>
        keeps_cursor (Many p) \<and> keeps_cursor (many1 p) \<and> keeps_cursor (token p))
   \<and> keeps_cursor digits \<and> keeps_cursor factor \<and> keeps_cursor term \<and> keeps_cursor expr
   \<and> Context_next (Context_init t n) = Context_init t (n + 1)
   \<and> pos (Context_next (Context_init t n)) = n + 1"
proof (intro conjI impI)
  show "wf_cursor (Context_init t n) = (0 \<le> n \<and> n \<le> int (length (strip t)))"
    by (rule wf_cursor_init)
  show "keeps_cursor (Sat P)" by (rule keeps_Sat)
  show "keeps_cursor (Char_parser ch)" by (rule keeps_Char)
  show "keeps_cursor (String_parser str)" by (rule keeps_String)
  show "keeps_cursor (Parser_or a b)" if "keeps_cursor a \<and> keeps_cursor b"
    using that by (simp add: keeps_or)
  show "keeps_cursor (Parser_bind q f)" if "keeps_cursor q \<and> (\<forall>x. keeps_cursor (f x))"
    using that by (simp add: keeps_bind)
  show "keeps_cursor (Many p)" if "keeps_cursor p" using that by (rule keeps_Many)
  show "keeps_cursor (many1 p)" if "keeps_cursor p" using that by (rule keeps_many1)
  show "keeps_cursor (token p)" if "keeps_cursor p" using that by (rule keeps_token)
  show "keeps_cursor digits" by (rule keeps_digits)
  show "keeps_cursor factor" unfolding factor_def by (rule keeps_grammar)
  show "keeps_cursor term" unfolding term_def by (rule keeps_grammar)
  show "keeps_cursor expr" unfolding expr_def by (rule keeps_grammar)
  show "Context_next (Context_init t n) = Context_init t (n + 1)"
    by (rule Context_next_init)
  show "pos (Context_next (Context_init t n)) = n + 1"
    by (simp add: Context_next_def Context_init_def)
qed

theorem parsers_keep_cursor_in_range_witness:
  "wf_cursor (Context_init ''1+2)'' 0)
   \<and> expr (Context_init ''1+2)'' 0) = Some (Inr (PyInt 3, \<lparr>s = ''1+2)'', pos = 3\<rparr>))
   \<and> s \<lparr>s = ''1+2)'', pos = 3\<rparr> = s (Context_init ''1+2)'' 0)
   \<and> wf_cursor \<lparr>s = ''1+2)'', pos = 3\<rparr>
   \<and> keeps_cursor (Parser_or (Char_parser CHR ''x'') (Sat is_digit))
   \<and> keeps_cursor (Parser_bind (Sat is_digit) (\<lambda>d. String_parser [d]))
   \<and> keeps_cursor (token (many1 (Sat is_digit)))
   \<and> Context_next (Context_init ''1+2)'' 0) = \<lparr>s = ''1+2)'', pos = 1\<rparr>"
proof -
  note T = parsers_keep_cursor_in_range [where t = "''1+2)''" and n = 0 and P = is_digit
      and ch = "CHR ''x''" and a = "Char_parser CHR ''x''" and b = "Sat is_digit"
      and q = "Sat is_digit" and f = "\<lambda>d. String_parser [d]" and p = "Sat is_digit"]
  note U = parsers_keep_cursor_in_range [where t = "''1+2)''" and n = 0 and P = is_digit
      and ch = "CHR ''x''" and a = "Char_parser CHR ''x''" and b = "Sat is_digit"
      and q = "Sat is_digit" and f = "\<lambda>d. String_parser [d]" and p = "many1 (Sat is_digit)"
      and str = "''x''"]
  have w: "wf_cursor (Context_init ''1+2)'' 0)"
    using T by (simp add: strip_def isspace_def)
  have e: "expr (Context_init ''1+2)'' 0) = Some (Inr (PyInt 3, \<lparr>s = ''1+2)'', pos = 3\<rparr>))"
    by (simp add: eval_defs)
  from T have "keeps_cursor expr" by simp
  then have end_cursor: "s \<lparr>s = ''1+2)'', pos = 3\<rparr> = s (Context_init ''1+2)'' 0)
      \<and> wf_cursor \<lparr>s = ''1+2)'', pos = 3\<rparr>"
    using w e by (rule keeps_cursorD)
  from T have sat: "keeps_cursor (Sat is_digit)" and chr: "keeps_cursor (Char_parser CHR ''x'')"
    and str: "keeps_cursor (String_parser [d])" for d
    by simp_all
  from T sat chr have alt: "keeps_cursor (Parser_or (Char_parser CHR ''x'') (Sat is_digit))"
    by simp
  from T sat str have seq: "keeps_cursor (Parser_bind (Sat is_digit) (\<lambda>d. String_parser [d]))"
    by simp
  from T sat have "keeps_cursor (many1 (Sat is_digit))" by simp
  with U have tok: "keeps_cursor (token (many1 (Sat is_digit)))" by simp
  from T have nxt: "Context_next (Context_init ''1+2)'' 0) = \<lparr>s = ''1+2)'', pos = 1\<rparr>"
    by (simp add: Context_init_def strip_def isspace_def)
  from w e end_cursor alt seq tok nxt show ?thesis by (intro conjI) simp_all
qed

end
